theory Spec2Isabelle
  imports Complex_Main
begin

section \<open>Python strings\<close>

text \<open>
  A Python \<open>str\<close> is a sequence of code points. A code point from \<open>0xD800\<close> to
  \<open>0xDFFF\<close> is a lone surrogate: a \<open>str\<close> may hold one (an undecodable byte of a
  command-line argument becomes one), and UTF-8 cannot encode it. \<open>ustr\<close> reads a
  literal as a \<open>str\<close>. Paths and the messages of exceptions are plain \<open>string\<close>s.
\<close>

type_synonym pystr = "nat list"

definition ustr :: "string \<Rightarrow> pystr" where
  "ustr s = map of_char s"

definition is_surrogate :: "nat \<Rightarrow> bool" where
  "is_surrogate c = (55296 \<le> c \<and> c \<le> 57343)"

text \<open>\<open>s.encode("utf-8")\<close> succeeds.\<close>

definition encodable :: "pystr \<Rightarrow> bool" where
  "encodable s = list_all (\<lambda>c. \<not> is_surrogate c) s"

text \<open>
  \<open>c.isspace()\<close>, the whitespace that \<open>str.strip()\<close> removes: tab to carriage return,
  the four separators \<open>0x1c\<close> to \<open>0x1f\<close>, space, \<open>0x85\<close>, \<open>0xa0\<close>, and the Unicode
  spaces \<open>0x1680\<close>, \<open>0x2000\<close> to \<open>0x200a\<close>, \<open>0x2028\<close>, \<open>0x2029\<close>, \<open>0x202f\<close>, \<open>0x205f\<close>
  and \<open>0x3000\<close>.
\<close>

definition py_isspace :: "nat \<Rightarrow> bool" where
  "py_isspace n =
     ((9 \<le> n \<and> n \<le> 13) \<or> (28 \<le> n \<and> n \<le> 32) \<or> n = 133 \<or> n = 160
      \<or> n = 5760 \<or> (8192 \<le> n \<and> n \<le> 8202) \<or> n = 8232 \<or> n = 8233
      \<or> n = 8239 \<or> n = 8287 \<or> n = 12288)"

text \<open>\<open>s.strip()\<close>: whitespace is dropped at the front, then at the back.\<close>

definition strip :: "pystr \<Rightarrow> pystr" where
  "strip s = rev (dropWhile py_isspace (rev (dropWhile py_isspace s)))"


section \<open>Python values and exceptions\<close>

text \<open>
  The values that \<open>json.load\<close> produces and \<open>json.dump\<close> consumes. A \<open>dict\<close> is an
  association list in insertion order; a Python dict has distinct keys, so \<open>map_of\<close>
  reads the only entry of a key.
\<close>

datatype pyval =
    PNone
  | PBool bool
  | PInt int
  | PFloat real
  | PStr pystr
  | PList "pyval list"
  | PDict "(pystr \<times> pyval) list"

text \<open>
  An exception is a class and a message. \<open>StorageError\<close> is the one class that
  \<open>storage.py\<close> declares; the others are Python's own. \<open>OSError\<close> stands for the class
  and its subclasses, as \<open>except OSError\<close> catches them all.
\<close>

datatype exn_class =
    StorageError
  | ValueError
  | TypeError
  | AttributeError
  | OSError
  | JSONDecodeError
  | UnicodeDecodeError
  | UnicodeEncodeError

datatype exn = Exc (cls: exn_class) (msg: string)

text \<open>What a call that can raise gives back, reduced to the class raised, if any.\<close>

definition raised :: "exn + 'a \<Rightarrow> exn_class option" where
  "raised r = (case r of Inl e \<Rightarrow> Some (cls e) | Inr _ \<Rightarrow> None)"

definition quoted :: "string \<Rightarrow> string" where
  "quoted s = CHR 0x27 # s @ [CHR 0x27]"

fun type_name :: "pyval \<Rightarrow> string" where
  "type_name PNone = ''NoneType''"
| "type_name (PBool _) = ''bool''"
| "type_name (PInt _) = ''int''"
| "type_name (PFloat _) = ''float''"
| "type_name (PStr _) = ''str''"
| "type_name (PList _) = ''list''"
| "type_name (PDict _) = ''dict''"

text \<open>\<open>d.get(k, default)\<close>.\<close>

definition dict_get :: "(pystr \<times> pyval) list \<Rightarrow> pystr \<Rightarrow> pyval \<Rightarrow> pyval" where
  "dict_get kvs k dflt = (case map_of kvs k of None \<Rightarrow> dflt | Some v \<Rightarrow> v)"

text \<open>
  \<open>str(v)\<close>: a \<open>str\<close> is returned as it is; for every other value \<open>str\<close> is \<open>repr\<close>,
  which is Python's and is taken as the parameter \<open>repr\<close>.
\<close>

fun py_str :: "(pyval \<Rightarrow> pystr) \<Rightarrow> pyval \<Rightarrow> pystr" where
  "py_str repr (PStr s) = s"
| "py_str repr v = repr v"

text \<open>\<open>bool(v)\<close>: the truth value of \<open>v\<close>.\<close>

fun py_bool :: "pyval \<Rightarrow> bool" where
  "py_bool PNone = False"
| "py_bool (PBool b) = b"
| "py_bool (PInt i) = (i \<noteq> 0)"
| "py_bool (PFloat r) = (r \<noteq> 0)"
| "py_bool (PStr s) = (s \<noteq> [])"
| "py_bool (PList xs) = (xs \<noteq> [])"
| "py_bool (PDict kvs) = (kvs \<noteq> [])"

text \<open>
  \<open>list(v)\<close>, and the elements a \<open>for\<close> loop over \<open>v\<close> visits: a list gives its
  elements, a \<open>str\<close> its characters, a dict its keys; \<open>None\<close>, a bool and a number are
  not iterable.
\<close>

fun py_list :: "pyval \<Rightarrow> exn + pyval list" where
  "py_list (PList xs) = Inr xs"
| "py_list (PStr s) = Inr (map (\<lambda>c. PStr [c]) s)"
| "py_list (PDict kvs) = Inr (map (\<lambda>kv. PStr (fst kv)) kvs)"
| "py_list v = Inl (Exc TypeError (quoted (type_name v) @ '' object is not iterable''))"

text \<open>The values that \<open>list(v)\<close> and a \<open>for\<close> loop accept.\<close>

fun iterable :: "pyval \<Rightarrow> bool" where
  "iterable (PList _) = True"
| "iterable (PStr _) = True"
| "iterable (PDict _) = True"
| "iterable _ = False"


section \<open>models.py: the Task entity\<close>

text \<open>
  The dataclass \<open>Task\<close>. The field \<open>id\<close> is named \<open>id'\<close> here. \<open>from_dict\<close> fills
  \<open>tags\<close> with \<open>list(...)\<close> of whatever the record holds, so the elements of \<open>tags\<close> are
  values, strings when the task is a valid one.
\<close>

record task =
  id' :: pystr
  description :: pystr
  created :: pystr
  completed :: bool
  tags :: "pyval list"

definition to_dict :: "task \<Rightarrow> pyval" where
  "to_dict t = PDict
     [(ustr ''id'', PStr (id' t)),
      (ustr ''description'', PStr (description t)),
      (ustr ''created'', PStr (created t)),
      (ustr ''completed'', PBool (completed t)),
      (ustr ''tags'', PList (tags t))]"

text \<open>
  \<open>Task.from_dict\<close>. \<open>now\<close> is what \<open>utc_now_iso()\<close> returns in this call (the default
  argument of \<open>data.get("created", utc_now_iso())\<close> is computed in every call). A value
  that is not a dict has no method \<open>get\<close>.
\<close>

fun from_dict :: "(pyval \<Rightarrow> pystr) \<Rightarrow> pystr \<Rightarrow> pyval \<Rightarrow> exn + task" where
  "from_dict repr now (PDict kvs) =
     (case py_list (dict_get kvs (ustr ''tags'') (PList [])) of
        Inl e \<Rightarrow> Inl e
      | Inr ts \<Rightarrow> Inr
          \<lparr> id' = py_str repr (dict_get kvs (ustr ''id'') (PStr [])),
            description = py_str repr (dict_get kvs (ustr ''description'') (PStr [])),
            created = py_str repr (dict_get kvs (ustr ''created'') (PStr now)),
            completed = py_bool (dict_get kvs (ustr ''completed'') (PBool False)),
            tags = ts \<rparr>)"
| "from_dict repr now v =
     Inl (Exc AttributeError
       (quoted (type_name v) @ '' object has no attribute '' @ quoted ''get''))"

text \<open>
  The records that \<open>from_dict\<close> can decode: a dict whose \<open>tags\<close> entry is missing or
  iterable.
\<close>

fun decodable :: "pyval \<Rightarrow> bool" where
  "decodable (PDict kvs) =
     (case map_of kvs (ustr ''tags'') of None \<Rightarrow> True | Some v \<Rightarrow> iterable v)"
| "decodable _ = False"

text \<open>
  \<open>Task.create(description, tags, id, created)\<close>; an optional argument left out is
  \<open>None\<close>. \<open>uuid\<close> is what \<open>uuid.uuid4().hex\<close> returns and \<open>now\<close> what \<open>utc_now_iso()\<close>
  returns, when this call asks for them.
\<close>

definition create ::
  "pystr \<Rightarrow> pystr \<Rightarrow> pystr \<Rightarrow> pyval list option \<Rightarrow> pystr option \<Rightarrow> pystr option
    \<Rightarrow> exn + task" where
  "create uuid now descr tgs ident crtd =
     (if descr = [] \<or> strip descr = [] then
        Inl (Exc ValueError ''description must be non-empty'')
      else Inr
        \<lparr> id' = (case ident of Some i \<Rightarrow> i | None \<Rightarrow> uuid),
          description = strip descr,
          created = (case crtd of Some c \<Rightarrow> c | None \<Rightarrow> now),
          completed = False,
          tags = (case tgs of None \<Rightarrow> [] | Some ts \<Rightarrow> if ts = [] then [] else ts) \<rparr>)"


section \<open>The file system\<close>

text \<open>
  A path names nothing, or a node: a file holding UTF-8 text, a file whose bytes are
  not UTF-8, or something that exists and cannot be opened or read (a directory, a
  file without read permission, a failing device), with the message of the
  \<open>OSError\<close> it gives.
\<close>

type_synonym path = string

datatype node = Text pystr | Binary | Unreadable string

type_synonym fs = "path \<Rightarrow> node option"

text \<open>
  \<open>open(path, "r", encoding="utf-8")\<close> and \<open>json.load(f)\<close>. The parser is Python's and is
  the parameter \<open>loads\<close>, which gives the document or the message of the
  \<open>JSONDecodeError\<close>.
\<close>

fun read_json :: "(pystr \<Rightarrow> string + pyval) \<Rightarrow> node \<Rightarrow> exn + pyval" where
  "read_json loads (Unreadable m) = Inl (Exc OSError m)"
| "read_json loads Binary =
     Inl (Exc UnicodeDecodeError ''utf-8 codec cannot decode byte: invalid start byte'')"
| "read_json loads (Text s) =
     (case loads s of Inl m \<Rightarrow> Inl (Exc JSONDecodeError m) | Inr d \<Rightarrow> Inr d)"

text \<open>
  What the operating system does to one call of \<open>save\<close>: nothing (\<open>None\<close>), or one step
  fails with an \<open>OSError\<close> of the given message. A failed write or flush leaves the
  first \<open>n\<close> characters in the file that was being written.
\<close>

datatype fault =
    MkdirFails string
  | OpenFails string
  | WriteFails nat string
  | FlushFails nat string
  | FsyncFails string
  | ReplaceFails string

text \<open>\<open>_ensure_parent\<close>: directories are not nodes of the model; \<open>makedirs\<close> can fail.\<close>

fun ensure_parent :: "fault option \<Rightarrow> exn + unit" where
  "ensure_parent (Some (MkdirFails m)) = Inl (Exc OSError m)"
| "ensure_parent _ = Inr ()"

text \<open>
  The block \<open>with open(p, "w", encoding="utf-8") as f: json.dump(...); f.flush();
  os.fsync(...)\<close>, given the chunks that \<open>json.dump\<close> writes to \<open>f\<close> one after the
  other. Opening creates or truncates \<open>p\<close>. The file encodes each chunk as it is
  written: the first chunk with a lone surrogate raises \<open>UnicodeEncodeError\<close>, which
  ends the block before \<open>flush\<close>, and closing the file leaves the chunks before it in
  \<open>p\<close>. A write that the operating system fails before that chunk is reached raises
  the \<open>OSError\<close> instead.
\<close>

definition encode_error :: exn where
  "encode_error =
     Exc UnicodeEncodeError ''utf-8 codec cannot encode character: surrogates not allowed''"

fun write_text :: "fault option \<Rightarrow> fs \<Rightarrow> path \<Rightarrow> pystr list \<Rightarrow> (exn + unit) \<times> fs" where
  "write_text (Some (OpenFails m)) fs p chunks = (Inl (Exc OSError m), fs)"
| "write_text (Some (WriteFails n m)) fs p chunks =
     (if list_all encodable chunks then
        (Inl (Exc OSError m), fs(p \<mapsto> Text (take n (concat chunks))))
      else if n < length (concat (takeWhile encodable chunks)) then
        (Inl (Exc OSError m), fs(p \<mapsto> Text (take n (concat (takeWhile encodable chunks)))))
      else (Inl encode_error, fs(p \<mapsto> Text (concat (takeWhile encodable chunks)))))"
| "write_text (Some (FlushFails n m)) fs p chunks =
     (if list_all encodable chunks then
        (Inl (Exc OSError m), fs(p \<mapsto> Text (take n (concat chunks))))
      else (Inl encode_error, fs(p \<mapsto> Text (concat (takeWhile encodable chunks)))))"
| "write_text (Some (FsyncFails m)) fs p chunks =
     (if list_all encodable chunks then
        (Inl (Exc OSError m), fs(p \<mapsto> Text (concat chunks)))
      else (Inl encode_error, fs(p \<mapsto> Text (concat (takeWhile encodable chunks)))))"
| "write_text _ fs p chunks =
     (if list_all encodable chunks then
        (Inr (), fs(p \<mapsto> Text (concat chunks)))
      else (Inl encode_error, fs(p \<mapsto> Text (concat (takeWhile encodable chunks)))))"

text \<open>
  \<open>os.replace(src, dst)\<close>: the rename of the operating system, which moves the node
  or fails and changes nothing.
\<close>

fun os_replace :: "fault option \<Rightarrow> fs \<Rightarrow> path \<Rightarrow> path \<Rightarrow> (exn + unit) \<times> fs" where
  "os_replace (Some (ReplaceFails m)) fs src dst = (Inl (Exc OSError m), fs)"
| "os_replace _ fs src dst =
     (case fs src of
        None \<Rightarrow> (Inl (Exc OSError ''No such file or directory''), fs)
      | Some n \<Rightarrow> (Inr (), (fs(src := None))(dst \<mapsto> n)))"


section \<open>storage.py: the Storage engine\<close>

text \<open>
  The list comprehension \<open>[Task.from_dict(t) for t in tasks_data]\<close>: the first
  element that raises ends it. \<open>clk i\<close> is the clock reading of the \<open>i\<close>-th call.
\<close>

fun decode_all ::
  "(pyval \<Rightarrow> pystr) \<Rightarrow> (nat \<Rightarrow> pystr) \<Rightarrow> nat \<Rightarrow> pyval list \<Rightarrow> exn + task list" where
  "decode_all repr clk i [] = Inr []"
| "decode_all repr clk i (v # vs) =
     (case from_dict repr (clk i) v of
        Inl e \<Rightarrow> Inl e
      | Inr t \<Rightarrow>
         (case decode_all repr clk (Suc i) vs of
            Inl e \<Rightarrow> Inl e
          | Inr ts \<Rightarrow> Inr (t # ts)))"

text \<open>\<open>Storage.load\<close>, for the storage object whose \<open>path\<close> is given.\<close>

definition load ::
  "(pystr \<Rightarrow> string + pyval) \<Rightarrow> (pyval \<Rightarrow> pystr) \<Rightarrow> (nat \<Rightarrow> pystr) \<Rightarrow> fs \<Rightarrow> path
    \<Rightarrow> exn + task list" where
  "load loads repr clk fs path =
     (case fs path of
        None \<Rightarrow> Inr []
      | Some nd \<Rightarrow>
         (case read_json loads nd of
            Inl e \<Rightarrow>
              if cls e = JSONDecodeError then
                Inl (Exc StorageError (''invalid JSON in '' @ path @ '': '' @ msg e))
              else if cls e = OSError then
                Inl (Exc StorageError (''could not read '' @ path @ '': '' @ msg e))
              else Inl e
          | Inr data \<Rightarrow>
              (let tasks_data =
                     (case data of PDict kvs \<Rightarrow> dict_get kvs (ustr ''tasks'') PNone
                      | _ \<Rightarrow> PNone)
               in if tasks_data = PNone then
                    Inl (Exc StorageError (''unexpected file format in '' @ path))
                  else
                    (case py_list tasks_data of
                       Inl e \<Rightarrow> Inl e
                     | Inr vs \<Rightarrow> decode_all repr clk 0 vs))))"

text \<open>The document that \<open>save\<close> serializes.\<close>

definition document :: "pystr \<Rightarrow> task list \<Rightarrow> pyval" where
  "document updated tasks = PDict
     [(ustr ''version'', PStr (ustr ''1.0'')),
      (ustr ''updated'', PStr updated),
      (ustr ''tasks'', PList (map to_dict tasks))]"

text \<open>The handler \<open>except OSError as exc: raise StorageError(...)\<close> of \<open>save\<close>.\<close>

definition write_error :: "path \<Rightarrow> exn \<Rightarrow> exn" where
  "write_error path e =
     (if cls e = OSError then Exc StorageError (''could not write '' @ path @ '': '' @ msg e)
      else e)"

text \<open>
  \<open>Storage.save\<close>: the result and the file system it leaves. The serializer is
  Python's \<open>json.dump\<close> and is the parameter \<open>dump\<close>, which gives the chunks of text
  that \<open>json.dump(data, f, ensure_ascii=False, indent=2)\<close> writes.
\<close>

definition save ::
  "(pyval \<Rightarrow> pystr list) \<Rightarrow> pystr \<Rightarrow> pystr \<Rightarrow> fault option \<Rightarrow> fs \<Rightarrow> path \<Rightarrow> task list
    \<Rightarrow> (exn + unit) \<times> fs" where
  "save dump uuid now flt fs path tasks =
     (case ensure_parent flt of
        Inl e \<Rightarrow> (Inl e, fs)
      | Inr _ \<Rightarrow>
         (case create uuid now (ustr ''_meta_'') None None None of
            Inl e \<Rightarrow> (Inl e, fs)
          | Inr meta \<Rightarrow>
             (let data = document (created meta) tasks;
                  tmp_path = path @ ''.tmp''
              in case write_text flt fs tmp_path (dump data) of
                   (Inl e, fs1) \<Rightarrow> (Inl (write_error path e), fs1)
                 | (Inr _, fs1) \<Rightarrow>
                     (case os_replace flt fs1 tmp_path path of
                        (Inl e, fs2) \<Rightarrow> (Inl (write_error path e), fs2)
                      | (Inr _, fs2) \<Rightarrow> (Inr (), fs2)))))"

text \<open>\<open>Storage.add_task\<close>: two clocks, the one \<open>load\<close> reads and the one \<open>save\<close> reads.\<close>

definition add_task ::
  "(pystr \<Rightarrow> string + pyval) \<Rightarrow> (pyval \<Rightarrow> pystr) \<Rightarrow> (nat \<Rightarrow> pystr)
    \<Rightarrow> (pyval \<Rightarrow> pystr list) \<Rightarrow> pystr \<Rightarrow> pystr \<Rightarrow> fault option \<Rightarrow> fs \<Rightarrow> path \<Rightarrow> task
    \<Rightarrow> (exn + unit) \<times> fs" where
  "add_task loads repr clk dump uuid now flt fs path t =
     (case load loads repr clk fs path of
        Inl e \<Rightarrow> (Inl e, fs)
      | Inr tasks \<Rightarrow> save dump uuid now flt fs path (tasks @ [t]))"

text \<open>The loop \<open>for t in tasks: if t.id == id: return t\<close>, then \<open>return None\<close>.\<close>

fun scan :: "pystr \<Rightarrow> task list \<Rightarrow> task option" where
  "scan i [] = None"
| "scan i (t # ts) = (if id' t = i then Some t else scan i ts)"

definition get_task_by_id ::
  "(pystr \<Rightarrow> string + pyval) \<Rightarrow> (pyval \<Rightarrow> pystr) \<Rightarrow> (nat \<Rightarrow> pystr) \<Rightarrow> fs \<Rightarrow> path \<Rightarrow> pystr
    \<Rightarrow> exn + task option" where
  "get_task_by_id loads repr clk fs path i =
     (case load loads repr clk fs path of
        Inl e \<Rightarrow> Inl e
      | Inr tasks \<Rightarrow> Inr (scan i tasks))"


section \<open>Shared facts\<close>

lemma ustr_eq_iff: "ustr a = ustr b \<longleftrightarrow> a = b"
  unfolding ustr_def by (simp add: inj_map_eq_map inj_on_def)

lemma takeWhile_all: "list_all P xs \<Longrightarrow> takeWhile P xs = xs"
  by (induction xs) simp_all

lemma tmp_path_neq: "path @ ''.tmp'' \<noteq> (path :: string)"
  by simp

lemma strip_meta: "strip (ustr ''_meta_'') = ustr ''_meta_''"
  by (simp add: strip_def py_isspace_def ustr_def)

lemma create_meta:
  "create uuid now (ustr ''_meta_'') None None None =
     Inr \<lparr> id' = uuid, description = ustr ''_meta_'', created = now, completed = False,
           tags = [] \<rparr>"
  by (simp add: create_def strip_meta) (simp add: ustr_def)

lemma from_dict_to_dict: "from_dict repr now (to_dict t) = Inr t"
  by (simp add: to_dict_def dict_get_def ustr_eq_iff)

lemma decode_all_to_dict: "decode_all repr clk i (map to_dict ts) = Inr ts"
  by (induction ts arbitrary: i) (simp_all add: from_dict_to_dict)

lemma save_no_fault:
  "list_all encodable (dump (document now ts)) \<Longrightarrow>
   save dump uuid now None fs path ts =
     (Inr (), (fs(path @ ''.tmp'' := None))(path \<mapsto> Text (concat (dump (document now ts)))))"
  by (simp add: save_def create_meta)

lemma save_not_encodable:
  "\<not> list_all encodable (dump (document now ts)) \<Longrightarrow>
   save dump uuid now None fs path ts =
     (Inl encode_error,
      fs(path @ ''.tmp'' \<mapsto> Text (concat (takeWhile encodable (dump (document now ts))))))"
  by (simp add: save_def create_meta write_error_def encode_error_def)

lemma load_document:
  assumes "fs path = Some (Text body)" and "loads body = Inr (document upd ts)"
  shows "load loads repr clk fs path = Inr ts"
  using assms by (simp add: load_def document_def dict_get_def decode_all_to_dict ustr_eq_iff)


section \<open>The Task entity\<close>

subsection \<open>Trimming\<close>

lemma strip_Nil_iff: "strip d = [] \<longleftrightarrow> (\<forall>c\<in>set d. py_isspace c)"
proof -
  let ?m = "dropWhile py_isspace d"
  have "strip d = [] \<longleftrightarrow> (\<forall>x\<in>set ?m. py_isspace x)"
    unfolding strip_def by (simp only: rev_is_Nil_conv dropWhile_eq_Nil_conv set_rev)
  also have "\<dots> \<longleftrightarrow> ?m = []"
  proof
    assume all: "\<forall>x\<in>set ?m. py_isspace x"
    show "?m = []"
    proof (rule ccontr)
      assume ne: "?m \<noteq> []"
      then have "\<not> py_isspace (hd ?m)" by (rule hd_dropWhile)
      moreover have "hd ?m \<in> set ?m" using ne by (rule hd_in_set)
      ultimately show False using all by blast
    qed
  next
    assume "?m = []"
    then show "\<forall>x\<in>set ?m. py_isspace x" by (simp only: list.set ball_empty)
  qed
  also have "\<dots> \<longleftrightarrow> (\<forall>c\<in>set d. py_isspace c)"
    by (simp only: dropWhile_eq_Nil_conv)
  finally show ?thesis .
qed

lemma strip_tail:
  "dropWhile py_isspace d =
     strip d @ rev (takeWhile py_isspace (rev (dropWhile py_isspace d)))"
proof -
  let ?m = "dropWhile py_isspace d"
  have "rev (takeWhile py_isspace (rev ?m) @ dropWhile py_isspace (rev ?m)) = rev (rev ?m)"
    by (simp only: takeWhile_dropWhile_id)
  then have "rev (dropWhile py_isspace (rev ?m)) @ rev (takeWhile py_isspace (rev ?m)) = ?m"
    by (simp only: rev_append rev_rev_ident)
  then show ?thesis unfolding strip_def by (rule sym)
qed

lemma strip_decomp:
  "d = takeWhile py_isspace d @ strip d
         @ rev (takeWhile py_isspace (rev (dropWhile py_isspace d)))"
proof -
  have "d = takeWhile py_isspace d @ dropWhile py_isspace d"
    by (simp only: takeWhile_dropWhile_id)
  then show ?thesis using strip_tail [of d] by metis
qed

lemma strip_hd: "strip d \<noteq> [] \<Longrightarrow> \<not> py_isspace (hd (strip d))"
proof -
  assume ne: "strip d \<noteq> []"
  let ?m = "dropWhile py_isspace d"
  have m: "?m = strip d @ rev (takeWhile py_isspace (rev ?m))"
    by (rule strip_tail)
  then have "hd ?m = hd (strip d)" using ne by (metis hd_append2)
  moreover have "?m \<noteq> []" using m ne by (metis append_is_Nil_conv)
  ultimately show ?thesis by (metis hd_dropWhile)
qed

lemma strip_last: "strip d \<noteq> [] \<Longrightarrow> \<not> py_isspace (last (strip d))"
proof -
  assume ne: "strip d \<noteq> []"
  let ?r = "dropWhile py_isspace (rev (dropWhile py_isspace d))"
  have r: "?r \<noteq> []" using ne by (simp add: strip_def)
  then have "\<not> py_isspace (hd ?r)" by (rule hd_dropWhile)
  moreover have "last (strip d) = hd ?r"
    using r by (simp add: strip_def last_rev)
  ultimately show ?thesis by simp
qed

subsection \<open>Task.create\<close>

text \<open>
  C4. Create validation: \<open>Task.create\<close> raises its validation error (the
  \<open>ValueError\<close> "description must be non-empty") if and only if the description is
  empty or consists of whitespace only. For every description with a character that
  is not whitespace it succeeds, and the description of the task is the input without
  its leading and trailing whitespace: the input is a whitespace prefix, the stored
  description, and a whitespace suffix, and the stored description begins and ends
  with a character that is not whitespace.
\<close>

theorem create_validation:
  "(create uuid now d tgs i c = Inl (Exc ValueError ''description must be non-empty'')
      \<longleftrightarrow> (\<forall>ch\<in>set d. py_isspace ch))
   \<and> ((\<exists>ch\<in>set d. \<not> py_isspace ch) \<longrightarrow>
        (\<exists>t pre post. create uuid now d tgs i c = Inr t
           \<and> description t = strip d
           \<and> d = pre @ description t @ post
           \<and> (\<forall>ch\<in>set pre. py_isspace ch) \<and> (\<forall>ch\<in>set post. py_isspace ch)
           \<and> description t \<noteq> []
           \<and> \<not> py_isspace (hd (description t)) \<and> \<not> py_isspace (last (description t))))"
proof (cases "\<forall>ch\<in>set d. py_isspace ch")
  case True
  then have "strip d = []" by (simp add: strip_Nil_iff)
  then show ?thesis using True by (simp add: create_def)
next
  case False
  then have ne: "strip d \<noteq> []" by (simp add: strip_Nil_iff)
  then have dne: "d \<noteq> []" using False by auto
  let ?pre = "takeWhile py_isspace d"
  let ?post = "rev (takeWhile py_isspace (rev (dropWhile py_isspace d)))"
  let ?t = "\<lparr> id' = (case i of Some j \<Rightarrow> j | None \<Rightarrow> uuid), description = strip d,
             created = (case c of Some x \<Rightarrow> x | None \<Rightarrow> now), completed = False,
             tags = (case tgs of None \<Rightarrow> [] | Some ts \<Rightarrow> if ts = [] then [] else ts) \<rparr>"
  have cr: "create uuid now d tgs i c = Inr ?t"
    using ne dne by (simp add: create_def)
  have pre: "\<forall>ch\<in>set ?pre. py_isspace ch"
    by (meson set_takeWhileD)
  have post: "\<forall>ch\<in>set ?post. py_isspace ch"
    by (metis set_rev set_takeWhileD)
  have dec: "d = ?pre @ description ?t @ ?post"
    using strip_decomp [of d] by simp
  have "create uuid now d tgs i c = Inr ?t
           \<and> description ?t = strip d
           \<and> d = ?pre @ description ?t @ ?post
           \<and> (\<forall>ch\<in>set ?pre. py_isspace ch) \<and> (\<forall>ch\<in>set ?post. py_isspace ch)
           \<and> description ?t \<noteq> []
           \<and> \<not> py_isspace (hd (description ?t)) \<and> \<not> py_isspace (last (description ?t))"
    using cr pre post dec ne strip_hd [OF ne] strip_last [OF ne] by simp
  then have "\<exists>t pre post. create uuid now d tgs i c = Inr t
           \<and> description t = strip d
           \<and> d = pre @ description t @ post
           \<and> (\<forall>ch\<in>set pre. py_isspace ch) \<and> (\<forall>ch\<in>set post. py_isspace ch)
           \<and> description t \<noteq> []
           \<and> \<not> py_isspace (hd (description t)) \<and> \<not> py_isspace (last (description t))"
    by blast
  moreover have "create uuid now d tgs i c \<noteq> Inl (Exc ValueError ''description must be non-empty'')"
    using cr by simp
  ultimately show ?thesis using False by blast
qed

text \<open>
  The examples of the specification: \<open>Create(" hi ")\<close> succeeds with description
  \<open>"hi"\<close>, and the theorem at \<open>" hi "\<close> gives the same task.
\<close>

theorem create_validation_witness:
  "\<not> py_isspace (of_char CHR ''h'')
   \<and> create (ustr ''0f3a'') (ustr ''2024-01-01T00:00:00+00:00'') (ustr '' hi '')
         None None None
       = Inr \<lparr> id' = ustr ''0f3a'', description = ustr ''hi'',
               created = ustr ''2024-01-01T00:00:00+00:00'', completed = False,
               tags = [] \<rparr>
   \<and> (\<exists>t pre post.
         create (ustr ''0f3a'') (ustr ''2024-01-01T00:00:00+00:00'') (ustr '' hi '')
           None None None = Inr t
         \<and> description t = ustr ''hi'' \<and> ustr '' hi '' = pre @ description t @ post)"
proof -
  have h: "\<exists>ch\<in>set (ustr '' hi ''). \<not> py_isspace ch"
    by (simp add: py_isspace_def ustr_def)
  have s: "strip (ustr '' hi '') = ustr ''hi''"
    by (simp add: strip_def py_isspace_def ustr_def)
  note inst = create_validation
      [of "ustr ''0f3a''" "ustr ''2024-01-01T00:00:00+00:00''" "ustr '' hi ''" None None None]
  from mp [OF conjunct2 [OF inst] h] obtain t pre post where
      "create (ustr ''0f3a'') (ustr ''2024-01-01T00:00:00+00:00'') (ustr '' hi '')
         None None None = Inr t"
      "description t = strip (ustr '' hi '')"
      "ustr '' hi '' = pre @ description t @ post"
    by blast
  then have "\<exists>t pre post.
         create (ustr ''0f3a'') (ustr ''2024-01-01T00:00:00+00:00'') (ustr '' hi '')
           None None None = Inr t
         \<and> description t = ustr ''hi'' \<and> ustr '' hi '' = pre @ description t @ post"
    unfolding s by blast
  moreover have "\<not> py_isspace (of_char CHR ''h'')"
    by (simp add: py_isspace_def)
  moreover have "create (ustr ''0f3a'') (ustr ''2024-01-01T00:00:00+00:00'') (ustr '' hi '')
         None None None
       = Inr \<lparr> id' = ustr ''0f3a'', description = ustr ''hi'',
               created = ustr ''2024-01-01T00:00:00+00:00'', completed = False,
               tags = [] \<rparr>"
    by (simp add: create_def s) (simp add: ustr_def)
  ultimately show ?thesis by blast
qed

subsection \<open>Task.from_dict\<close>

lemma py_list_iterable: "iterable v \<Longrightarrow> \<exists>xs. py_list v = Inr xs"
  by (cases v) simp_all

lemma from_dict_decodable: "decodable v \<Longrightarrow> \<exists>t. from_dict repr now v = Inr t"
proof (cases v)
  case (PDict kvs)
  assume d: "decodable v"
  show ?thesis
  proof (cases "map_of kvs (ustr ''tags'')")
    case None
    then show ?thesis using PDict by (simp add: dict_get_def)
  next
    case (Some x)
    then have "iterable x" using d PDict by simp
    then obtain xs where "py_list x = Inr xs" using py_list_iterable by blast
    then show ?thesis using PDict Some by (simp add: dict_get_def)
  qed
qed simp_all

lemma decode_all_decodable:
  "\<forall>v\<in>set vs. decodable v \<Longrightarrow>
     \<exists>ts. decode_all repr clk i vs = Inr ts \<and> length ts = length vs"
proof (induction vs arbitrary: i)
  case Nil
  then show ?case by simp
next
  case (Cons v vs)
  then obtain t where t: "from_dict repr (clk i) v = Inr t"
    using from_dict_decodable [of v repr "clk i"] by auto
  obtain ts where ts: "decode_all repr clk (Suc i) vs = Inr ts" "length ts = length vs"
    using Cons by auto
  show ?case using t ts by simp
qed

text \<open>
  C5, as the code has it. For every key-value map whose \<open>tags\<close> entry is missing or
  iterable (a sequence, a string or a mapping), \<open>Task.from_dict\<close> succeeds without
  raising: a missing \<open>id\<close> or \<open>description\<close> is the empty string, a missing \<open>created\<close>
  the current time, a missing \<open>completed\<close> false, a missing \<open>tags\<close> the empty
  sequence; a present \<open>id\<close>, \<open>description\<close> or \<open>created\<close> is coerced with \<open>str\<close>, a
  present \<open>completed\<close> with \<open>bool\<close>, a present \<open>tags\<close> with \<open>list\<close>. A sequence of such
  maps is decoded whole, one task per record.
\<close>

theorem from_dict_defaults:
  "(map_of kvs (ustr ''tags'') = None
      \<or> (\<exists>v. map_of kvs (ustr ''tags'') = Some v \<and> iterable v) \<longrightarrow>
     (\<exists>t. from_dict repr now (PDict kvs) = Inr t
       \<and> id' t = (case map_of kvs (ustr ''id'') of None \<Rightarrow> [] | Some v \<Rightarrow> py_str repr v)
       \<and> description t
           = (case map_of kvs (ustr ''description'') of None \<Rightarrow> []
              | Some v \<Rightarrow> py_str repr v)
       \<and> created t
           = (case map_of kvs (ustr ''created'') of None \<Rightarrow> now | Some v \<Rightarrow> py_str repr v)
       \<and> completed t
           = (case map_of kvs (ustr ''completed'') of None \<Rightarrow> False | Some v \<Rightarrow> py_bool v)
       \<and> py_list (case map_of kvs (ustr ''tags'') of None \<Rightarrow> PList [] | Some v \<Rightarrow> v)
           = Inr (tags t)))
   \<and> ((\<forall>v\<in>set vs. decodable v) \<longrightarrow>
        (\<exists>ts. decode_all repr clk i vs = Inr ts \<and> length ts = length vs))"
proof (intro conjI impI)
  assume "map_of kvs (ustr ''tags'') = None
      \<or> (\<exists>v. map_of kvs (ustr ''tags'') = Some v \<and> iterable v)"
  then show "\<exists>t. from_dict repr now (PDict kvs) = Inr t
       \<and> id' t = (case map_of kvs (ustr ''id'') of None \<Rightarrow> [] | Some v \<Rightarrow> py_str repr v)
       \<and> description t
           = (case map_of kvs (ustr ''description'') of None \<Rightarrow> []
              | Some v \<Rightarrow> py_str repr v)
       \<and> created t
           = (case map_of kvs (ustr ''created'') of None \<Rightarrow> now | Some v \<Rightarrow> py_str repr v)
       \<and> completed t
           = (case map_of kvs (ustr ''completed'') of None \<Rightarrow> False | Some v \<Rightarrow> py_bool v)
       \<and> py_list (case map_of kvs (ustr ''tags'') of None \<Rightarrow> PList [] | Some v \<Rightarrow> v)
           = Inr (tags t)"
  proof
    assume "map_of kvs (ustr ''tags'') = None"
    then show ?thesis by (simp add: dict_get_def split: option.splits)
  next
    assume "\<exists>v. map_of kvs (ustr ''tags'') = Some v \<and> iterable v"
    then obtain v where v: "map_of kvs (ustr ''tags'') = Some v" "iterable v" by blast
    then obtain xs where "py_list v = Inr xs" using py_list_iterable by blast
    then show ?thesis using v by (simp add: dict_get_def split: option.splits)
  qed
next
  assume "\<forall>v\<in>set vs. decodable v"
  then show "\<exists>ts. decode_all repr clk i vs = Inr ts \<and> length ts = length vs"
    by (rule decode_all_decodable)
qed

text \<open>The tolerant decode of the specification: \<open>FromMap({})\<close>.\<close>

theorem from_dict_defaults_witness:
  "map_of ([] :: (pystr \<times> pyval) list) (ustr ''tags'') = None
   \<and> decodable (PDict [])
   \<and> from_dict (\<lambda>v. ustr ''?'') (ustr ''2024-01-01T00:00:00+00:00'') (PDict [])
       = Inr \<lparr> id' = [], description = [], created = ustr ''2024-01-01T00:00:00+00:00'',
               completed = False, tags = [] \<rparr>
   \<and> (\<exists>ts. decode_all (\<lambda>v. ustr ''?'') (\<lambda>i. ustr ''2024-01-01T00:00:00+00:00'') 0
              [PDict []] = Inr ts
         \<and> length ts = 1)"
  using from_dict_defaults
    [where kvs = "[]" and vs = "[PDict []]" and repr = "\<lambda>v. ustr ''?''"
       and now = "ustr ''2024-01-01T00:00:00+00:00''"
       and clk = "\<lambda>i. ustr ''2024-01-01T00:00:00+00:00''" and i = 0]
  by (simp add: dict_get_def)

text \<open>
  C5 as stated fails: a record whose \<open>tags\<close> is a number makes \<open>from_dict\<close> raise
  \<open>TypeError\<close>, and one record whose \<open>tags\<close> is null makes the whole \<open>load\<close> raise it.
\<close>

theorem from_dict_total_counterexample:
  "raised (from_dict (\<lambda>v. ustr ''5'') (ustr ''2024-01-01T00:00:00+00:00'')
             (PDict [(ustr ''id'', PStr (ustr ''a'')), (ustr ''tags'', PInt 5)]))
     = Some TypeError
   \<and> raised (load (\<lambda>s. Inr (PDict [(ustr ''tasks'',
                        PList [PDict [(ustr ''id'', PStr (ustr ''a'')),
                                      (ustr ''tags'', PNone)]])]))
               (\<lambda>v. ustr ''None'') (\<lambda>i. ustr ''2024-01-01T00:00:00+00:00'')
               [''tasks.json'' \<mapsto> Text (ustr ''T'')] ''tasks.json'') = Some TypeError"
  by (simp add: raised_def load_def dict_get_def ustr_eq_iff)

text \<open>
  C10, as the code has it. String tags decode to characters: for every map whose
  \<open>tags\<close> value is a string \<open>s\<close>, \<open>Task.from_dict\<close> succeeds and the tags of the task
  are the one-character strings of \<open>s\<close> in order, as many as \<open>s\<close> has characters
  (\<open>"abc"\<close> becomes \<open>["a", "b", "c"]\<close>); they are the one-element sequence \<open>[s]\<close>
  exactly when \<open>s\<close> is a single character.
\<close>

theorem from_dict_string_tags:
  "map_of kvs (ustr ''tags'') = Some (PStr s) \<Longrightarrow>
     \<exists>t. from_dict repr now (PDict kvs) = Inr t \<and> tags t = map (\<lambda>c. PStr [c]) s
        \<and> length (tags t) = length s \<and> (length s \<noteq> 1 \<longrightarrow> tags t \<noteq> [PStr s])
        \<and> (length s = 1 \<longrightarrow> tags t = [PStr s])"
proof -
  assume a: "map_of kvs (ustr ''tags'') = Some (PStr s)"
  have one: "length s = 1 \<longrightarrow> map (\<lambda>c. PStr [c]) s = [PStr s]"
    by (cases s) auto
  have many: "length s \<noteq> 1 \<longrightarrow> map (\<lambda>c. PStr [c]) s \<noteq> [PStr s]"
    by (cases s) auto
  show ?thesis using a one many by (simp add: dict_get_def)
qed

theorem from_dict_string_tags_witness:
  "map_of [(ustr ''id'', PStr (ustr ''a'')), (ustr ''tags'', PStr (ustr ''abc''))]
       (ustr ''tags'') = Some (PStr (ustr ''abc''))
   \<and> (\<exists>t. from_dict (\<lambda>v. ustr ''?'') (ustr ''2024-01-01T00:00:00+00:00'')
             (PDict [(ustr ''id'', PStr (ustr ''a'')), (ustr ''tags'', PStr (ustr ''abc''))])
           = Inr t
          \<and> tags t = [PStr (ustr ''a''), PStr (ustr ''b''), PStr (ustr ''c'')])"
proof -
  have m: "map_of [(ustr ''id'', PStr (ustr ''a'')), (ustr ''tags'', PStr (ustr ''abc''))]
       (ustr ''tags'') = Some (PStr (ustr ''abc''))"
    by (simp add: ustr_eq_iff)
  have e: "map (\<lambda>c. PStr [c]) (ustr ''abc'')
             = [PStr (ustr ''a''), PStr (ustr ''b''), PStr (ustr ''c'')]"
    by (simp add: ustr_def)
  from from_dict_string_tags
    [where kvs = "[(ustr ''id'', PStr (ustr ''a'')), (ustr ''tags'', PStr (ustr ''abc''))]"
       and s = "ustr ''abc''" and repr = "\<lambda>v. ustr ''?''"
       and now = "ustr ''2024-01-01T00:00:00+00:00''", OF m]
  obtain t where
    "from_dict (\<lambda>v. ustr ''?'') (ustr ''2024-01-01T00:00:00+00:00'')
       (PDict [(ustr ''id'', PStr (ustr ''a'')), (ustr ''tags'', PStr (ustr ''abc''))]) = Inr t"
    "tags t = map (\<lambda>c. PStr [c]) (ustr ''abc'')"
    by blast
  then show ?thesis using m e by auto
qed

text \<open>
  C10 as stated fails at a string of one character: the tags of \<open>"a"\<close> are \<open>["a"]\<close>,
  which is the one-element sequence \<open>[s]\<close>.
\<close>

theorem from_dict_string_tags_counterexample:
  "from_dict (\<lambda>v. ustr ''?'') (ustr ''2024-01-01T00:00:00+00:00'')
     (PDict [(ustr ''id'', PStr (ustr ''x'')), (ustr ''tags'', PStr (ustr ''a''))])
   = Inr \<lparr> id' = ustr ''x'', description = [],
           created = ustr ''2024-01-01T00:00:00+00:00'', completed = False,
           tags = [PStr (ustr ''a'')] \<rparr>"
  by (simp add: dict_get_def ustr_eq_iff) (simp add: ustr_def)


section \<open>Storage.load\<close>

text \<open>
  C6. First run: for every path that does not exist, \<open>Storage.load\<close> returns the
  empty sequence; it raises nothing, whatever the parser and the clock are.
\<close>

theorem load_absent_path: "fs path = None \<Longrightarrow> load loads repr clk fs path = Inr []"
  by (simp add: load_def)

theorem load_absent_path_witness:
  "(Map.empty :: fs) ''tasks.json'' = None
   \<and> load (\<lambda>s. Inl ''Expecting value'') (\<lambda>v. ustr ''?'')
        (\<lambda>i. ustr ''2024-01-01T00:00:00+00:00'') Map.empty ''tasks.json'' = Inr []"
  using load_absent_path [of Map.empty "''tasks.json''"] by simp

text \<open>
  C3, as the code has it. When the backing path exists, \<open>Storage.load\<close> fails with
  the one error class \<open>StorageError\<close> in three cases, told apart by the message
  only: "invalid JSON in <path>: ..." when the text of the file is not valid JSON,
  "could not read <path>: ..." when opening or reading raises an \<open>OSError\<close>, and
  "unexpected file format in <path>" when the parsed document is not a key-value
  mapping or has no \<open>tasks\<close> key. The three messages differ pairwise, and a text
  that does not parse never gives an empty result.
\<close>

theorem load_error_messages:
  "(fs path = Some (Text body) \<and> loads body = Inl m \<longrightarrow>
      load loads repr clk fs path
        = Inl (Exc StorageError (''invalid JSON in '' @ path @ '': '' @ m)))
   \<and> (fs path = Some (Unreadable m) \<longrightarrow>
      load loads repr clk fs path
        = Inl (Exc StorageError (''could not read '' @ path @ '': '' @ m)))
   \<and> (fs path = Some (Text body) \<and> loads body = Inr d
        \<and> (\<forall>kvs. d = PDict kvs \<longrightarrow> map_of kvs (ustr ''tasks'') = None) \<longrightarrow>
      load loads repr clk fs path
        = Inl (Exc StorageError (''unexpected file format in '' @ path)))
   \<and> ''invalid JSON in '' @ path @ '': '' @ m \<noteq> ''could not read '' @ path @ '': '' @ m'
   \<and> ''invalid JSON in '' @ path @ '': '' @ m \<noteq> ''unexpected file format in '' @ path
   \<and> ''could not read '' @ path @ '': '' @ m' \<noteq> ''unexpected file format in '' @ path"
  by (cases d) (simp_all add: load_def dict_get_def)

text \<open>
  The corrupt file of the specification and of \<open>test_storage_handles_invalid_json\<close>:
  the text \<open>not a json\<close>, which the parser rejects.
\<close>

theorem load_error_messages_witness:
  "[''tasks.json'' \<mapsto> Text (ustr ''not a json'')] ''tasks.json''
       = Some (Text (ustr ''not a json''))
   \<and> load (\<lambda>s. Inl ''Expecting value: line 1 column 1 (char 0)'') (\<lambda>v. ustr ''?'')
        (\<lambda>i. ustr ''2024-01-01T00:00:00+00:00'')
        [''tasks.json'' \<mapsto> Text (ustr ''not a json'')] ''tasks.json''
       = Inl (Exc StorageError
           ''invalid JSON in tasks.json: Expecting value: line 1 column 1 (char 0)'')"
  using load_error_messages
    [where fs = "[''tasks.json'' \<mapsto> Text (ustr ''not a json'')]"
       and path = "''tasks.json''" and body = "ustr ''not a json''"
       and loads = "\<lambda>s. Inl ''Expecting value: line 1 column 1 (char 0)''"
       and m = "''Expecting value: line 1 column 1 (char 0)''"
       and repr = "\<lambda>v. ustr ''?''" and clk = "\<lambda>i. ustr ''2024-01-01T00:00:00+00:00''"]
  by simp

text \<open>
  C3 as stated fails: the error of a file that does not parse and the error of a
  file that cannot be read are of the same class, \<open>StorageError\<close>, so they are not
  two distinguishable error kinds; and a file whose bytes are not UTF-8, which is
  no valid structured data either, gives neither: its \<open>UnicodeDecodeError\<close> passes both
  handlers.
\<close>

theorem load_error_kinds_counterexample:
  "raised (load (\<lambda>s. Inl ''Expecting value: line 1 column 1 (char 0)'') (\<lambda>v. ustr ''?'')
             (\<lambda>i. ustr ''2024-01-01T00:00:00+00:00'')
             [''tasks.json'' \<mapsto> Text (ustr ''not a json'')] ''tasks.json'')
       = Some StorageError
   \<and> raised (load (\<lambda>s. Inl ''Expecting value: line 1 column 1 (char 0)'') (\<lambda>v. ustr ''?'')
             (\<lambda>i. ustr ''2024-01-01T00:00:00+00:00'')
             [''tasks.json'' \<mapsto> Unreadable ''Permission denied''] ''tasks.json'')
       = Some StorageError
   \<and> raised (load (\<lambda>s. Inl ''Expecting value: line 1 column 1 (char 0)'') (\<lambda>v. ustr ''?'')
             (\<lambda>i. ustr ''2024-01-01T00:00:00+00:00'')
             [''tasks.json'' \<mapsto> Binary] ''tasks.json'') = Some UnicodeDecodeError"
  by (simp add: load_def raised_def)

text \<open>
  C9. A null \<open>tasks\<close> value is a schema error: when the file parses as a key-value
  mapping whose \<open>tasks\<close> key holds null, \<open>Storage.load\<close> raises the error "unexpected
  file format in <path>", the same one as when the key is missing; it returns no
  empty sequence.
\<close>

theorem load_null_tasks:
  "fs path = Some (Text body) \<Longrightarrow> loads body = Inr (PDict kvs) \<Longrightarrow>
   map_of kvs (ustr ''tasks'') = Some PNone \<or> map_of kvs (ustr ''tasks'') = None \<Longrightarrow>
   load loads repr clk fs path = Inl (Exc StorageError (''unexpected file format in '' @ path))"
  by (auto simp add: load_def dict_get_def)

theorem load_null_tasks_witness:
  "[''tasks.json'' \<mapsto> Text (ustr ''{\"tasks\": null}'')] ''tasks.json''
       = Some (Text (ustr ''{\"tasks\": null}''))
   \<and> map_of [(ustr ''version'', PStr (ustr ''1.0'')), (ustr ''tasks'', PNone)] (ustr ''tasks'')
       = Some PNone
   \<and> load (\<lambda>s. Inr (PDict [(ustr ''version'', PStr (ustr ''1.0'')), (ustr ''tasks'', PNone)]))
        (\<lambda>v. ustr ''?'') (\<lambda>i. ustr ''2024-01-01T00:00:00+00:00'')
        [''tasks.json'' \<mapsto> Text (ustr ''{\"tasks\": null}'')] ''tasks.json''
       = Inl (Exc StorageError ''unexpected file format in tasks.json'')"
proof -
  have m: "map_of [(ustr ''version'', PStr (ustr ''1.0'')), (ustr ''tasks'', PNone)]
             (ustr ''tasks'') = Some PNone"
    by (simp add: ustr_eq_iff)
  show ?thesis
    using m load_null_tasks
      [where fs = "[''tasks.json'' \<mapsto> Text (ustr ''{\"tasks\": null}'')]"
         and path = "''tasks.json''" and body = "ustr ''{\"tasks\": null}''"
         and loads = "\<lambda>s. Inr (PDict [(ustr ''version'', PStr (ustr ''1.0'')),
                                        (ustr ''tasks'', PNone)])"
         and kvs = "[(ustr ''version'', PStr (ustr ''1.0'')), (ustr ''tasks'', PNone)]"
         and repr = "\<lambda>v. ustr ''?''" and clk = "\<lambda>i. ustr ''2024-01-01T00:00:00+00:00''"]
    by simp
qed


section \<open>Storage.save\<close>

text \<open>
  C2. Save atomicity on failure: for every task sequence and every failure of a step
  of \<open>save\<close> (creating the parent directory, opening, writing, flushing or syncing
  the temporary file, renaming it), \<open>Storage.save\<close> raises an error and the real
  backing path holds afterwards exactly what it held before, or is still absent.
  When the serialized text can be encoded as UTF-8 the error is a \<open>StorageError\<close>
  for every step from opening on, and with no failing step the real path holds the
  whole serialized document. When it cannot be encoded, \<open>save\<close> raises even with no
  failing step, and leaves the real path as it was. The real path never holds a part
  of a document.
\<close>

theorem save_failure_atomic:
  "(list_all encodable (dump (document now ts)) \<longrightarrow>
       raised (fst (save dump uuid now (Some f) fs path ts))
         = Some (case f of MkdirFails m \<Rightarrow> OSError | _ \<Rightarrow> StorageError)
     \<and> snd (save dump uuid now None fs path ts) path
         = Some (Text (concat (dump (document now ts)))))
   \<and> (raised (fst (save dump uuid now (Some f) fs path ts))
         = Some (case f of MkdirFails m \<Rightarrow> OSError | _ \<Rightarrow> StorageError)
      \<or> raised (fst (save dump uuid now (Some f) fs path ts)) = Some UnicodeEncodeError)
   \<and> snd (save dump uuid now (Some f) fs path ts) path = fs path
   \<and> (\<not> list_all encodable (dump (document now ts)) \<longrightarrow>
        raised (fst (save dump uuid now None fs path ts)) = Some UnicodeEncodeError
      \<and> snd (save dump uuid now None fs path ts) path = fs path)"
proof -
  have a: "list_all encodable (dump (document now ts)) \<longrightarrow>
       raised (fst (save dump uuid now (Some f) fs path ts))
         = Some (case f of MkdirFails m \<Rightarrow> OSError | _ \<Rightarrow> StorageError)"
    by (cases f)
       (simp_all add: save_def create_meta raised_def write_error_def Let_def takeWhile_all)
  have b: "list_all encodable (dump (document now ts)) \<longrightarrow>
       snd (save dump uuid now None fs path ts) path
         = Some (Text (concat (dump (document now ts))))"
    by (simp add: save_no_fault)
  have c: "raised (fst (save dump uuid now (Some f) fs path ts))
         = Some (case f of MkdirFails m \<Rightarrow> OSError | _ \<Rightarrow> StorageError)
      \<or> raised (fst (save dump uuid now (Some f) fs path ts)) = Some UnicodeEncodeError"
    by (cases f)
       (simp_all add: save_def create_meta raised_def write_error_def encode_error_def
          Let_def)
  have d: "snd (save dump uuid now (Some f) fs path ts) path = fs path"
    by (cases f) (simp_all add: save_def create_meta Let_def)
  have e: "\<not> list_all encodable (dump (document now ts)) \<longrightarrow>
        raised (fst (save dump uuid now None fs path ts)) = Some UnicodeEncodeError
      \<and> snd (save dump uuid now None fs path ts) path = fs path"
    by (simp add: save_not_encodable raised_def encode_error_def)
  show ?thesis using a b c d e by blast
qed

text \<open>
  A write that fails after 7 characters: the error is a \<open>StorageError\<close>, the old
  content is still at the real path, and the part written is at the temporary path.
\<close>

theorem save_failure_atomic_witness:
  "list_all encodable [ustr ''{ version: 1.0 }'']
   \<and> fst (save (\<lambda>d. [ustr ''{ version: 1.0 }'']) (ustr ''0f3a'')
          (ustr ''2024-01-01T00:00:00+00:00'')
          (Some (WriteFails 7 ''No space left on device''))
          [''tasks.json'' \<mapsto> Text (ustr ''old'')] ''tasks.json'' [])
     = Inl (Exc StorageError ''could not write tasks.json: No space left on device'')
   \<and> snd (save (\<lambda>d. [ustr ''{ version: 1.0 }'']) (ustr ''0f3a'')
          (ustr ''2024-01-01T00:00:00+00:00'')
          (Some (WriteFails 7 ''No space left on device''))
          [''tasks.json'' \<mapsto> Text (ustr ''old'')] ''tasks.json'' []) ''tasks.json''
     = Some (Text (ustr ''old''))
   \<and> snd (save (\<lambda>d. [ustr ''{ version: 1.0 }'']) (ustr ''0f3a'')
          (ustr ''2024-01-01T00:00:00+00:00'')
          (Some (WriteFails 7 ''No space left on device''))
          [''tasks.json'' \<mapsto> Text (ustr ''old'')] ''tasks.json'' []) ''tasks.json.tmp''
     = Some (Text (ustr ''{ versi''))"
proof -
  have enc: "list_all encodable [ustr ''{ version: 1.0 }'']"
    by (simp add: encodable_def is_surrogate_def ustr_def)
  have tk: "take 7 (ustr ''{ version: 1.0 }'') = ustr ''{ versi''"
    by (simp add: ustr_def)
  note inst = save_failure_atomic
    [where dump = "\<lambda>d. [ustr ''{ version: 1.0 }'']" and uuid = "ustr ''0f3a''"
       and now = "ustr ''2024-01-01T00:00:00+00:00''"
       and f = "WriteFails 7 ''No space left on device''"
       and fs = "[''tasks.json'' \<mapsto> Text (ustr ''old'')]" and path = "''tasks.json''"
       and ts = "[]"]
  have r: "snd (save (\<lambda>d. [ustr ''{ version: 1.0 }'']) (ustr ''0f3a'')
          (ustr ''2024-01-01T00:00:00+00:00'')
          (Some (WriteFails 7 ''No space left on device''))
          [''tasks.json'' \<mapsto> Text (ustr ''old'')] ''tasks.json'' []) ''tasks.json''
     = Some (Text (ustr ''old''))"
    using inst by simp
  show ?thesis
    using enc r by (simp add: save_def create_meta write_error_def tk)
qed

text \<open>
  C1, as the code has it. Round trip: for every sequence \<open>T\<close> of tasks whose
  serialized document can be encoded as UTF-8 (no string of it holds a lone
  surrogate), calling \<open>Storage.save(T)\<close> and then \<open>Storage.load()\<close> on the same path
  yields \<open>T\<close>: the same tasks in the same order, each with the same \<open>id\<close>,
  \<open>description\<close>, \<open>created\<close>, \<open>completed\<close> and \<open>tags\<close>. What is asked of Python's
  \<open>json\<close> is that \<open>json.load\<close> reads back the document that \<open>json.dump\<close> wrote, as
  it does for the strings, booleans and lists of strings of valid tasks.
\<close>

theorem save_load_roundtrip:
  assumes "list_all encodable (dump (document now ts))"
    and "loads (concat (dump (document now ts))) = Inr (document now ts)"
  shows "fst (save dump uuid now None fs path ts) = Inr ()
       \<and> load loads repr clk (snd (save dump uuid now None fs path ts)) path = Inr ts"
  using assms by (simp add: save_no_fault load_document)

text \<open>
  The end-to-end scenario of the specification and of \<open>test_storage_save_and_load\<close>:
  one task "Test task" with the tag "unit".
\<close>

theorem save_load_roundtrip_witness:
  "list_all encodable [ustr ''D1'']
   \<and> (\<lambda>s. if s = ustr ''D1'' then
           Inr (document (ustr ''2024-01-02T00:00:00+00:00'')
             [\<lparr> id' = ustr ''0f3a'', description = ustr ''Test task'',
                created = ustr ''2024-01-01T00:00:00+00:00'', completed = False,
                tags = [PStr (ustr ''unit'')] \<rparr>])
         else Inl ''Expecting value'')
      (concat [ustr ''D1''])
     = Inr (document (ustr ''2024-01-02T00:00:00+00:00'')
             [\<lparr> id' = ustr ''0f3a'', description = ustr ''Test task'',
                created = ustr ''2024-01-01T00:00:00+00:00'', completed = False,
                tags = [PStr (ustr ''unit'')] \<rparr>])
   \<and> load
        (\<lambda>s. if s = ustr ''D1'' then
           Inr (document (ustr ''2024-01-02T00:00:00+00:00'')
             [\<lparr> id' = ustr ''0f3a'', description = ustr ''Test task'',
                created = ustr ''2024-01-01T00:00:00+00:00'', completed = False,
                tags = [PStr (ustr ''unit'')] \<rparr>])
         else Inl ''Expecting value'')
        (\<lambda>v. ustr ''?'') (\<lambda>i. ustr ''2024-01-03T00:00:00+00:00'')
        (snd (save (\<lambda>d. [ustr ''D1'']) (ustr ''77aa'') (ustr ''2024-01-02T00:00:00+00:00'')
                None Map.empty ''tasks.json''
                [\<lparr> id' = ustr ''0f3a'', description = ustr ''Test task'',
                   created = ustr ''2024-01-01T00:00:00+00:00'', completed = False,
                   tags = [PStr (ustr ''unit'')] \<rparr>]))
        ''tasks.json''
     = Inr [\<lparr> id' = ustr ''0f3a'', description = ustr ''Test task'',
              created = ustr ''2024-01-01T00:00:00+00:00'', completed = False,
              tags = [PStr (ustr ''unit'')] \<rparr>]"
proof -
  let ?t = "\<lparr> id' = ustr ''0f3a'', description = ustr ''Test task'',
              created = ustr ''2024-01-01T00:00:00+00:00'', completed = False,
              tags = [PStr (ustr ''unit'')] \<rparr>"
  let ?loads = "\<lambda>s. if s = ustr ''D1'' then
                  Inr (document (ustr ''2024-01-02T00:00:00+00:00'') [?t])
                else Inl ''Expecting value''"
  have enc: "list_all encodable [ustr ''D1'']"
    by (simp add: encodable_def is_surrogate_def ustr_def)
  have law: "?loads (concat [ustr ''D1''])
               = Inr (document (ustr ''2024-01-02T00:00:00+00:00'') [?t])"
    by simp
  note inst = save_load_roundtrip
    [where loads = ?loads and dump = "\<lambda>d. [ustr ''D1'']"
       and now = "ustr ''2024-01-02T00:00:00+00:00''" and ts = "[?t]"
       and uuid = "ustr ''77aa''" and fs = Map.empty and path = "''tasks.json''"
       and repr = "\<lambda>v. ustr ''?''" and clk = "\<lambda>i. ustr ''2024-01-03T00:00:00+00:00''",
     OF enc law]
  show ?thesis using enc law inst by blast
qed

text \<open>
  C1 as stated fails: \<open>Task.create\<close> accepts a description that is a lone surrogate,
  as the command line delivers for an undecodable byte; \<open>save\<close> of that task
  raises \<open>UnicodeEncodeError\<close> at the chunk that holds the description, the real path
  stays absent, and \<open>load\<close> then returns the empty sequence, not the task. The chunks
  are those of \<open>json.dump\<close> for this document.
\<close>

theorem save_load_roundtrip_counterexample:
  "(let a = \<lparr> id' = ustr ''a1'', description = [55296], created = ustr ''t0'',
              completed = False, tags = [] \<rparr>;
        r = save
              (\<lambda>d. map ustr
                 [''{'', ''\<newline>  '', ''\"version\"'', '': '', ''\"1.0\"'', '',\<newline>  '',
                  ''\"updated\"'', '': '', ''\"t1\"'', '',\<newline>  '', ''\"tasks\"'', '': '',
                  ''[\<newline>    '', ''{'', ''\<newline>      '', ''\"id\"'', '': '', ''\"a1\"'',
                  '',\<newline>      '', ''\"description\"'', '': '']
                @ [[34, 55296, 34]]
                @ map ustr
                 ['',\<newline>      '', ''\"created\"'', '': '', ''\"t0\"'', '',\<newline>      '',
                  ''\"completed\"'', '': '', ''false'', '',\<newline>      '', ''\"tags\"'', '': '',
                  ''[]'', ''\<newline>    '', ''}'', ''\<newline>  '', '']'', ''\<newline>'', ''}''])
              (ustr ''77aa'') (ustr ''t1'') None Map.empty ''tasks.json'' [a]
    in create (ustr ''77aa'') (ustr ''t0'') [55296] None (Some (ustr ''a1'')) (Some (ustr ''t0''))
         = Inr a
       \<and> raised (fst r) = Some UnicodeEncodeError
       \<and> snd r ''tasks.json'' = None
       \<and> load (\<lambda>s. Inl ''Expecting value'') (\<lambda>v. ustr ''?'') (\<lambda>i. ustr ''t2'') (snd r)
            ''tasks.json'' = Inr [])"
proof -
  let ?a = "\<lparr> id' = ustr ''a1'', description = [55296], created = ustr ''t0'',
              completed = False, tags = [] \<rparr>"
  let ?dump = "\<lambda>d :: pyval. map ustr
                 [''{'', ''\<newline>  '', ''\"version\"'', '': '', ''\"1.0\"'', '',\<newline>  '',
                  ''\"updated\"'', '': '', ''\"t1\"'', '',\<newline>  '', ''\"tasks\"'', '': '',
                  ''[\<newline>    '', ''{'', ''\<newline>      '', ''\"id\"'', '': '', ''\"a1\"'',
                  '',\<newline>      '', ''\"description\"'', '': '']
                @ [[34, 55296, 34]]
                @ map ustr
                 ['',\<newline>      '', ''\"created\"'', '': '', ''\"t0\"'', '',\<newline>      '',
                  ''\"completed\"'', '': '', ''false'', '',\<newline>      '', ''\"tags\"'', '': '',
                  ''[]'', ''\<newline>    '', ''}'', ''\<newline>  '', '']'', ''\<newline>'', ''}'']"
  let ?r = "save ?dump (ustr ''77aa'') (ustr ''t1'') None Map.empty ''tasks.json'' [?a]"
  have bad: "\<not> encodable [34, 55296, 34]"
    by (simp add: encodable_def is_surrogate_def)
  have ne: "\<not> list_all encodable (?dump (document (ustr ''t1'') [?a]))"
    using bad by simp
  have s: "strip [55296] = [55296]"
    by (simp add: strip_def py_isspace_def)
  have c: "create (ustr ''77aa'') (ustr ''t0'') [55296] None (Some (ustr ''a1''))
             (Some (ustr ''t0'')) = Inr ?a"
    by (simp add: create_def s)
  have r1: "raised (fst ?r) = Some UnicodeEncodeError"
    by (simp only: save_not_encodable [OF ne]) (simp add: raised_def encode_error_def)
  have r2: "snd ?r ''tasks.json'' = None"
    by (simp only: save_not_encodable [OF ne]) simp
  have r3: "load (\<lambda>s. Inl ''Expecting value'') (\<lambda>v. ustr ''?'') (\<lambda>i. ustr ''t2'') (snd ?r)
            ''tasks.json'' = Inr []"
    using r2 by (simp add: load_def)
  show ?thesis unfolding Let_def using c r1 r2 r3 by blast
qed


section \<open>Storage.add_task and Storage.get_task_by_id\<close>

text \<open>
  C7, as the code has it. AddTask composition and append order: \<open>Storage.add_task(t)\<close>
  loads, appends \<open>t\<close> to the loaded sequence and saves the result; so \<open>AddTask(a)\<close>
  and then \<open>AddTask(b)\<close>, starting from an absent backing file, both succeed, and
  \<open>Load()\<close> then returns exactly \<open>[a, b]\<close>, in that order, whenever the two serialized
  documents can be encoded as UTF-8 (no string of them holds a lone surrogate). What
  is asked of Python's \<open>json\<close> is that \<open>json.load\<close> reads back each of the two
  documents that \<open>json.dump\<close> wrote.
\<close>

theorem add_task_append_order:
  assumes absent: "fs path = None"
    and enc1: "list_all encodable (dump (document n1 [a]))"
    and law1: "loads (concat (dump (document n1 [a]))) = Inr (document n1 [a])"
    and enc2: "list_all encodable (dump (document n2 [a, b]))"
    and law2: "loads (concat (dump (document n2 [a, b]))) = Inr (document n2 [a, b])"
  shows "(\<forall>ts0 fs0 t clk uuid now flt.
            load loads repr clk fs0 path = Inr ts0 \<longrightarrow>
            add_task loads repr clk dump uuid now flt fs0 path t
              = save dump uuid now flt fs0 path (ts0 @ [t]))
    \<and> fst (add_task loads repr c1 dump u1 n1 None fs path a) = Inr ()
    \<and> fst (add_task loads repr c2 dump u2 n2 None
             (snd (add_task loads repr c1 dump u1 n1 None fs path a)) path b) = Inr ()
    \<and> load loads repr c3
         (snd (add_task loads repr c2 dump u2 n2 None
             (snd (add_task loads repr c1 dump u1 n1 None fs path a)) path b)) path
        = Inr [a, b]"
proof -
  let ?fa = "(fs(path @ ''.tmp'' := None))(path \<mapsto> Text (concat (dump (document n1 [a]))))"
  let ?fb = "(?fa(path @ ''.tmp'' := None))
               (path \<mapsto> Text (concat (dump (document n2 [a, b]))))"
  have comp: "\<forall>ts0 fs0 t clk uuid now flt.
            load loads repr clk fs0 path = Inr ts0 \<longrightarrow>
            add_task loads repr clk dump uuid now flt fs0 path t
              = save dump uuid now flt fs0 path (ts0 @ [t])"
    by (simp add: add_task_def)
  have l0: "load loads repr c1 fs path = Inr []"
    using absent by (simp add: load_def)
  have a1: "add_task loads repr c1 dump u1 n1 None fs path a = (Inr (), ?fa)"
    using enc1 by (simp add: add_task_def l0 save_no_fault)
  have l1: "load loads repr c2 ?fa path = Inr [a]"
    by (rule load_document [where body = "concat (dump (document n1 [a]))" and upd = n1])
       (simp_all add: law1)
  have a2: "add_task loads repr c2 dump u2 n2 None ?fa path b = (Inr (), ?fb)"
    using enc2 by (simp add: add_task_def l1 save_no_fault)
  have l2: "load loads repr c3 ?fb path = Inr [a, b]"
    by (rule load_document [where body = "concat (dump (document n2 [a, b]))" and upd = n2])
       (simp_all add: law2)
  have "fst (add_task loads repr c1 dump u1 n1 None fs path a) = Inr ()
    \<and> fst (add_task loads repr c2 dump u2 n2 None
             (snd (add_task loads repr c1 dump u1 n1 None fs path a)) path b) = Inr ()
    \<and> load loads repr c3
         (snd (add_task loads repr c2 dump u2 n2 None
             (snd (add_task loads repr c1 dump u1 n1 None fs path a)) path b)) path
        = Inr [a, b]"
    by (simp only: a1 a2 l2 fst_conv snd_conv)
  then show ?thesis using comp by blast
qed

text \<open>
  Two tasks "A" and "B" added to an empty directory; the serializer writes a short
  name for each document and the parser reads the names back.
\<close>

theorem add_task_append_order_witness:
  "(let a = \<lparr> id' = ustr ''a1'', description = ustr ''A'', created = ustr ''t0'',
              completed = False, tags = [] \<rparr>;
        b = \<lparr> id' = ustr ''b2'', description = ustr ''B'', created = ustr ''t1'',
              completed = False, tags = [PStr (ustr ''home'')] \<rparr>;
        loads = (\<lambda>s. if s = ustr ''D1'' then Inr (document (ustr ''t1'') [a])
                      else Inr (document (ustr ''t2'') [a, b]));
        dump = (\<lambda>d. if d = document (ustr ''t1'') [a] then [ustr ''D1''] else [ustr ''D2''])
    in (Map.empty :: fs) ''tasks.json'' = None
       \<and> list_all encodable (dump (document (ustr ''t1'') [a]))
       \<and> list_all encodable (dump (document (ustr ''t2'') [a, b]))
       \<and> load loads (\<lambda>v. ustr ''?'') (\<lambda>i. ustr ''t3'')
           (snd (add_task loads (\<lambda>v. ustr ''?'') (\<lambda>i. ustr ''t2'') dump (ustr ''u2'')
                   (ustr ''t2'') None
                   (snd (add_task loads (\<lambda>v. ustr ''?'') (\<lambda>i. ustr ''t1'') dump (ustr ''u1'')
                           (ustr ''t1'') None Map.empty ''tasks.json'' a))
                   ''tasks.json'' b))
           ''tasks.json''
         = Inr [a, b])"
proof -
  let ?a = "\<lparr> id' = ustr ''a1'', description = ustr ''A'', created = ustr ''t0'',
              completed = False, tags = [] \<rparr>"
  let ?b = "\<lparr> id' = ustr ''b2'', description = ustr ''B'', created = ustr ''t1'',
              completed = False, tags = [PStr (ustr ''home'')] \<rparr>"
  let ?loads = "\<lambda>s. if s = ustr ''D1'' then Inr (document (ustr ''t1'') [?a])
                 else Inr (document (ustr ''t2'') [?a, ?b])"
  let ?dump = "\<lambda>d. if d = document (ustr ''t1'') [?a] then [ustr ''D1''] else [ustr ''D2'']"
  have absent: "(Map.empty :: fs) ''tasks.json'' = None"
    by simp
  have e1: "encodable (ustr ''D1'')" and e2: "encodable (ustr ''D2'')"
    by (simp_all add: encodable_def is_surrogate_def ustr_def)
  have enc1: "list_all encodable (?dump (document (ustr ''t1'') [?a]))"
    using e1 by simp
  have enc2: "list_all encodable (?dump (document (ustr ''t2'') [?a, ?b]))"
    using e1 e2 by simp
  have law1: "?loads (concat (?dump (document (ustr ''t1'') [?a])))
                = Inr (document (ustr ''t1'') [?a])"
    by simp
  have ne: "document (ustr ''t2'') [?a, ?b] \<noteq> document (ustr ''t1'') [?a]"
    by (simp add: document_def)
  have d12: "ustr ''D2'' \<noteq> ustr ''D1''"
    by (simp add: ustr_eq_iff)
  have law2: "?loads (concat (?dump (document (ustr ''t2'') [?a, ?b])))
                = Inr (document (ustr ''t2'') [?a, ?b])"
    using ne d12 by simp
  note inst = add_task_append_order
    [where fs = Map.empty and path = "''tasks.json''" and loads = ?loads and dump = ?dump
       and ?n1.0 = "ustr ''t1''" and ?n2.0 = "ustr ''t2''" and a = ?a and b = ?b
       and repr = "\<lambda>v. ustr ''?''" and ?c1.0 = "\<lambda>i. ustr ''t1''"
       and ?c2.0 = "\<lambda>i. ustr ''t2''" and ?c3.0 = "\<lambda>i. ustr ''t3''"
       and ?u1.0 = "ustr ''u1''" and ?u2.0 = "ustr ''u2''",
     OF absent enc1 law1 enc2 law2]
  show ?thesis unfolding Let_def using absent enc1 enc2 inst by blast
qed

text \<open>
  C7 as stated fails: when the description of \<open>taskA\<close> is a lone surrogate, which
  \<open>Task.create\<close> accepts, \<open>AddTask(taskA)\<close> on an absent file raises
  \<open>UnicodeEncodeError\<close> and leaves the file absent; \<open>AddTask(taskB)\<close> then succeeds,
  and \<open>Load()\<close> returns \<open>[taskB]\<close>, not \<open>[taskA, taskB]\<close>. The chunks for the document
  of \<open>taskA\<close> are those of \<open>json.dump\<close>; the document of \<open>taskB\<close> is written under a
  short name that the parser reads back.
\<close>

theorem add_task_append_order_counterexample:
  "(let a = \<lparr> id' = ustr ''a1'', description = [55296], created = ustr ''t0'',
              completed = False, tags = [] \<rparr>;
        b = \<lparr> id' = ustr ''b2'', description = ustr ''B'', created = ustr ''t1'',
              completed = False, tags = [] \<rparr>;
        loads = (\<lambda>s. if s = ustr ''D2'' then Inr (document (ustr ''t2'') [b])
                      else Inl ''Expecting value'');
        dump = (\<lambda>d. if d = document (ustr ''t1'') [a] then
                 map ustr
                 [''{'', ''\<newline>  '', ''\"version\"'', '': '', ''\"1.0\"'', '',\<newline>  '',
                  ''\"updated\"'', '': '', ''\"t1\"'', '',\<newline>  '', ''\"tasks\"'', '': '',
                  ''[\<newline>    '', ''{'', ''\<newline>      '', ''\"id\"'', '': '', ''\"a1\"'',
                  '',\<newline>      '', ''\"description\"'', '': '']
                @ [[34, 55296, 34]]
                @ map ustr
                 ['',\<newline>      '', ''\"created\"'', '': '', ''\"t0\"'', '',\<newline>      '',
                  ''\"completed\"'', '': '', ''false'', '',\<newline>      '', ''\"tags\"'', '': '',
                  ''[]'', ''\<newline>    '', ''}'', ''\<newline>  '', '']'', ''\<newline>'', ''}'']
               else [ustr ''D2'']);
        r1 = add_task loads (\<lambda>v. ustr ''?'') (\<lambda>i. ustr ''t1'') dump (ustr ''u1'')
               (ustr ''t1'') None Map.empty ''tasks.json'' a;
        r2 = add_task loads (\<lambda>v. ustr ''?'') (\<lambda>i. ustr ''t2'') dump (ustr ''u2'')
               (ustr ''t2'') None (snd r1) ''tasks.json'' b
    in raised (fst r1) = Some UnicodeEncodeError
       \<and> snd r1 ''tasks.json'' = None
       \<and> fst r2 = Inr ()
       \<and> load loads (\<lambda>v. ustr ''?'') (\<lambda>i. ustr ''t3'') (snd r2) ''tasks.json'' = Inr [b])"
proof -
  let ?a = "\<lparr> id' = ustr ''a1'', description = [55296], created = ustr ''t0'',
              completed = False, tags = [] \<rparr>"
  let ?b = "\<lparr> id' = ustr ''b2'', description = ustr ''B'', created = ustr ''t1'',
              completed = False, tags = [] \<rparr>"
  let ?loads = "\<lambda>s. if s = ustr ''D2'' then Inr (document (ustr ''t2'') [?b])
                 else Inl ''Expecting value''"
  let ?dump = "\<lambda>d. if d = document (ustr ''t1'') [?a] then
                 map ustr
                 [''{'', ''\<newline>  '', ''\"version\"'', '': '', ''\"1.0\"'', '',\<newline>  '',
                  ''\"updated\"'', '': '', ''\"t1\"'', '',\<newline>  '', ''\"tasks\"'', '': '',
                  ''[\<newline>    '', ''{'', ''\<newline>      '', ''\"id\"'', '': '', ''\"a1\"'',
                  '',\<newline>      '', ''\"description\"'', '': '']
                @ [[34, 55296, 34]]
                @ map ustr
                 ['',\<newline>      '', ''\"created\"'', '': '', ''\"t0\"'', '',\<newline>      '',
                  ''\"completed\"'', '': '', ''false'', '',\<newline>      '', ''\"tags\"'', '': '',
                  ''[]'', ''\<newline>    '', ''}'', ''\<newline>  '', '']'', ''\<newline>'', ''}'']
               else [ustr ''D2'']"
  let ?r1 = "add_task ?loads (\<lambda>v. ustr ''?'') (\<lambda>i. ustr ''t1'') ?dump (ustr ''u1'')
               (ustr ''t1'') None Map.empty ''tasks.json'' ?a"
  let ?r2 = "add_task ?loads (\<lambda>v. ustr ''?'') (\<lambda>i. ustr ''t2'') ?dump (ustr ''u2'')
               (ustr ''t2'') None (snd ?r1) ''tasks.json'' ?b"
  have bad: "\<not> encodable [34, 55296, 34]"
    by (simp add: encodable_def is_surrogate_def)
  have good: "encodable (ustr ''D2'')"
    by (simp add: encodable_def is_surrogate_def ustr_def)
  have ne1: "\<not> list_all encodable (?dump (document (ustr ''t1'') [?a]))"
    using bad by simp
  have dne: "document (ustr ''t2'') [?b] \<noteq> document (ustr ''t1'') [?a]"
    by (simp add: document_def ustr_eq_iff)
  have d2: "?dump (document (ustr ''t2'') [?b]) = [ustr ''D2'']"
    using dne by simp
  have enc2: "list_all encodable (?dump (document (ustr ''t2'') [?b]))"
    unfolding d2 using good by simp
  have l0: "load ?loads (\<lambda>v. ustr ''?'') (\<lambda>i. ustr ''t1'') Map.empty ''tasks.json'' = Inr []"
    by (simp add: load_def)
  have s1: "?r1 = save ?dump (ustr ''u1'') (ustr ''t1'') None Map.empty ''tasks.json'' [?a]"
    by (simp only: add_task_def l0 sum.case append_Nil)
  note sv1 = save_not_encodable
    [where dump = ?dump and now = "ustr ''t1''" and ts = "[?a]" and uuid = "ustr ''u1''"
       and fs = Map.empty and path = "''tasks.json''", OF ne1]
  have r1: "raised (fst ?r1) = Some UnicodeEncodeError"
    by (simp only: s1 sv1) (simp add: raised_def encode_error_def)
  have p1: "snd ?r1 ''tasks.json'' = None"
    by (simp only: s1 sv1) simp
  have l1: "load ?loads (\<lambda>v. ustr ''?'') (\<lambda>i. ustr ''t2'') (snd ?r1) ''tasks.json'' = Inr []"
    using p1 by (simp only: load_def option.case)
  have s2: "?r2 = save ?dump (ustr ''u2'') (ustr ''t2'') None (snd ?r1) ''tasks.json'' [?b]"
    by (simp only: add_task_def [of _ _ _ _ _ _ _ "snd ?r1"] l1 sum.case append_Nil)
  have v2: "save ?dump (ustr ''u2'') (ustr ''t2'') None (snd ?r1) ''tasks.json'' [?b]
      = (Inr (), ((snd ?r1)(''tasks.json'' @ ''.tmp'' := None))
                   (''tasks.json'' \<mapsto> Text (concat (?dump (document (ustr ''t2'') [?b])))))"
    by (rule save_no_fault
          [where dump = ?dump and now = "ustr ''t2''" and ts = "[?b]", OF enc2])
  have r2: "fst ?r2 = Inr ()"
    by (simp only: s2 v2 fst_conv)
  have l2: "load ?loads (\<lambda>v. ustr ''?'') (\<lambda>i. ustr ''t3'') (snd ?r2) ''tasks.json'' = Inr [?b]"
    unfolding s2 v2 snd_conv
    by (rule load_document [where body = "ustr ''D2''" and upd = "ustr ''t2''"])
       (simp_all add: d2)
  show ?thesis unfolding Let_def using r1 p1 r2 l2 by blast
qed

subsection \<open>The scan for an id\<close>

lemma scan_None: "scan i ts = None \<longleftrightarrow> (\<forall>t\<in>set ts. id' t \<noteq> i)"
  by (induction ts) auto

lemma scan_Some:
  "scan i ts = Some t \<Longrightarrow>
     \<exists>k<length ts. ts ! k = t \<and> id' t = i \<and> (\<forall>j<k. id' (ts ! j) \<noteq> i)"
proof (induction ts)
  case Nil
  then show ?case by simp
next
  case (Cons a ts)
  show ?case
  proof (cases "id' a = i")
    case True
    then have "t = a" using Cons.prems by simp
    then have "(a # ts) ! 0 = t \<and> id' t = i \<and> (\<forall>j<0. id' ((a # ts) ! j) \<noteq> i)"
      using True by simp
    then show ?thesis by (metis length_greater_0_conv list.distinct(1))
  next
    case False
    then have "scan i ts = Some t" using Cons.prems by simp
    then obtain k where k: "k < length ts" "ts ! k = t" "id' t = i" "\<forall>j<k. id' (ts ! j) \<noteq> i"
      using Cons.IH by blast
    have "\<forall>j<Suc k. id' ((a # ts) ! j) \<noteq> i"
    proof (intro allI impI)
      fix j assume "j < Suc k"
      then show "id' ((a # ts) ! j) \<noteq> i"
        using False k(4) by (cases j) simp_all
    qed
    then have "Suc k < length (a # ts) \<and> (a # ts) ! Suc k = t \<and> id' t = i
        \<and> (\<forall>j<Suc k. id' ((a # ts) ! j) \<noteq> i)"
      using k by simp
    then show ?thesis by blast
  qed
qed

text \<open>
  C8. GetTaskById first-match semantics: when \<open>Load()\<close> gives the sequence \<open>ts\<close>,
  \<open>Storage.get_task_by_id(i)\<close> returns the task at the least position of \<open>ts\<close> whose
  \<open>id\<close> equals \<open>i\<close> (the earliest one when several tasks share the id), and returns
  \<open>None\<close> when no task of \<open>ts\<close> has that id.
\<close>

theorem get_task_by_id_first_match:
  assumes "load loads repr clk fs path = Inr ts"
  shows "(\<exists>k<length ts. id' (ts ! k) = i \<and> (\<forall>j<k. id' (ts ! j) \<noteq> i)
            \<and> get_task_by_id loads repr clk fs path i = Inr (Some (ts ! k)))
       \<or> ((\<forall>t\<in>set ts. id' t \<noteq> i)
            \<and> get_task_by_id loads repr clk fs path i = Inr None)"
proof (cases "scan i ts")
  case None
  then show ?thesis using assms by (simp add: get_task_by_id_def scan_None)
next
  case (Some t)
  then obtain k where "k < length ts" "ts ! k = t" "id' t = i" "\<forall>j<k. id' (ts ! j) \<noteq> i"
    using scan_Some by blast
  then show ?thesis using assms Some by (auto simp add: get_task_by_id_def)
qed

text \<open>Three tasks in the file, the last two with the same id: the second is returned.\<close>

theorem get_task_by_id_first_match_witness:
  "(let ts = [\<lparr> id' = ustr ''x'', description = ustr ''zero'', created = ustr ''t0'',
                 completed = False, tags = [] \<rparr>,
              \<lparr> id' = ustr ''k'', description = ustr ''first'', created = ustr ''t1'',
                 completed = False, tags = [] \<rparr>,
              \<lparr> id' = ustr ''k'', description = ustr ''second'', created = ustr ''t2'',
                 completed = True, tags = [] \<rparr>];
        loads = (\<lambda>s :: pystr. (Inr (document (ustr ''t9'') ts) :: string + pyval))
    in load loads (\<lambda>v. ustr ''?'') (\<lambda>i. ustr ''t3'') [''tasks.json'' \<mapsto> Text (ustr ''D'')]
         ''tasks.json'' = Inr ts
       \<and> get_task_by_id loads (\<lambda>v. ustr ''?'') (\<lambda>i. ustr ''t3'')
           [''tasks.json'' \<mapsto> Text (ustr ''D'')] ''tasks.json'' (ustr ''k'')
         = Inr (Some \<lparr> id' = ustr ''k'', description = ustr ''first'', created = ustr ''t1'',
                        completed = False, tags = [] \<rparr>))"
proof -
  let ?ts = "[\<lparr> id' = ustr ''x'', description = ustr ''zero'', created = ustr ''t0'',
                 completed = False, tags = [] \<rparr>,
              \<lparr> id' = ustr ''k'', description = ustr ''first'', created = ustr ''t1'',
                 completed = False, tags = [] \<rparr>,
              \<lparr> id' = ustr ''k'', description = ustr ''second'', created = ustr ''t2'',
                 completed = True, tags = [] \<rparr>]"
  let ?loads = "\<lambda>s :: pystr. (Inr (document (ustr ''t9'') ?ts) :: string + pyval)"
  let ?fs = "[''tasks.json'' \<mapsto> Text (ustr ''D'')]"
  have xk: "ustr ''x'' \<noteq> ustr ''k''"
    by (simp add: ustr_eq_iff)
  have l: "load ?loads (\<lambda>v. ustr ''?'') (\<lambda>i. ustr ''t3'') ?fs ''tasks.json'' = Inr ?ts"
    by (rule load_document [where body = "ustr ''D''" and upd = "ustr ''t9''"]) simp_all
  have k1: "\<And>k. k < length ?ts \<Longrightarrow> id' (?ts ! k) = ustr ''k'' \<Longrightarrow>
              (\<forall>j<k. id' (?ts ! j) \<noteq> ustr ''k'') \<Longrightarrow> k = 1"
  proof -
    fix k assume a: "k < length ?ts" "id' (?ts ! k) = ustr ''k''"
      "\<forall>j<k. id' (?ts ! j) \<noteq> ustr ''k''"
    have "k = 0 \<or> k = 1 \<or> k = 2" using a(1) by auto
    then show "k = 1"
    proof (elim disjE)
      assume "k = 0" then show ?thesis using a(2) xk by simp
    next
      assume "k = 1" then show ?thesis .
    next
      assume "k = 2"
      then have "(1::nat) < k" by simp
      then have "id' (?ts ! 1) \<noteq> ustr ''k''" using a(3) by blast
      then show ?thesis by simp
    qed
  qed
  note d = get_task_by_id_first_match [OF l, of "ustr ''k''"]
  have no: "\<not> (\<forall>t\<in>set ?ts. id' t \<noteq> ustr ''k'')"
    by simp
  from d no obtain k where kk: "k < length ?ts" "id' (?ts ! k) = ustr ''k''"
      "\<forall>j<k. id' (?ts ! j) \<noteq> ustr ''k''"
      "get_task_by_id ?loads (\<lambda>v. ustr ''?'') (\<lambda>i. ustr ''t3'') ?fs ''tasks.json'' (ustr ''k'')
          = Inr (Some (?ts ! k))"
    by blast
  have "k = 1" using kk(1) kk(2) kk(3) by (rule k1)
  then have "get_task_by_id ?loads (\<lambda>v. ustr ''?'') (\<lambda>i. ustr ''t3'') ?fs ''tasks.json''
          (ustr ''k'') = Inr (Some (?ts ! 1))"
    using kk(4) by simp
  then show ?thesis unfolding Let_def using l by simp
qed


end
